theory Spec2Isabelle
  imports Main "HOL-Library.Monad_Syntax"
begin

section \<open>The virtual-register name table of the PPC port (vmreg\_ppc.cpp)\<close>

text \<open>
  The file defines two members of \<open>VMRegImpl\<close>:
  \<^item> \<open>set_regName()\<close>, which fills the global array \<open>regName\<close> with the names of the
    integer registers, then of the floating-point registers, and whose last loop calls
    \<open>Unimplemented()\<close> if a slot is left;
  \<^item> \<open>as_Register()\<close>, whose whole body is \<open>Unimplemented()\<close>.

  Everything else the two functions use is declared in other files: the three constants
  of \<open>ConcreteRegisterImpl\<close>, the register handles with their \<open>name()\<close> and
  \<open>successor()\<close>, the global \<open>::as_Register(int)\<close> and \<open>::as_FloatRegister(int)\<close>,
  the array \<open>regName\<close> itself, and the macro \<open>Unimplemented()\<close>.
\<close>

subsection \<open>Data\<close>

text \<open>
  The error conditions. \<open>UnimplementedPath\<close> is what \<open>Unimplemented()\<close> signals.
  \<open>OutOfRange\<close> belongs to the error taxonomy of the specification; no statement of the
  file produces it. \<open>NoReturnValue\<close> stands for control reaching the closing brace of a
  function declared to return a \<open>Register\<close>.
\<close>

datatype error = UnimplementedPath | OutOfRange | NoReturnValue

text \<open>A physical register of either class: \<open>Register\<close> and \<open>FloatRegister\<close> are
  distinct handle types in the source.\<close>

datatype ('r, 'f) physreg = GPR 'r | FPR 'f

text \<open>
  What the file takes from its collaborators, as parameters. The three constants are
  \<open>int\<close>s, read as \<open>ConcreteRegisterImpl::max_gpr\<close>, \<open>ConcreteRegisterImpl::max_fpr\<close>
  and \<open>ConcreteRegisterImpl::number_of_registers\<close>. \<open>as_Register\<close> and
  \<open>as_FloatRegister\<close> are the global functions from an encoding to a handle;
  \<open>reg_name\<close>, \<open>reg_successor\<close> are \<open>RegisterImpl::name()\<close> and
  \<open>RegisterImpl::successor()\<close>, and \<open>freg_name\<close>, \<open>freg_successor\<close> those of
  \<open>FloatRegisterImpl\<close>.
\<close>

record ('r, 'f) arch =
  max_gpr :: int
  max_fpr :: int
  number_of_registers :: int
  as_Register :: "int \<Rightarrow> 'r"
  reg_name :: "'r \<Rightarrow> string"
  reg_successor :: "'r \<Rightarrow> 'r"
  as_FloatRegister :: "int \<Rightarrow> 'f"
  freg_name :: "'f \<Rightarrow> string"
  freg_successor :: "'f \<Rightarrow> 'f"

text \<open>
  The state \<open>set_regName\<close> works on: its local \<open>int i\<close> (field \<open>cursor\<close>) and the
  global array \<open>regName\<close>, a store from index to name in which \<open>None\<close> is a slot
  holding no name. The declaration of the array, and with it its length, is outside the
  file: the store has a slot at every index. The field \<open>named\<close> is a ghost: each time a name is stored in slot
  \<open>i\<close>, it records the register handle whose \<open>name()\<close> was stored. It is never read
  by the program.
\<close>

record ('r, 'f) state =
  cursor :: int
  regName :: "int \<rightharpoonup> string"
  named :: "int \<rightharpoonup> ('r, 'f) physreg"

subsection \<open>The macro \<open>Unimplemented()\<close>\<close>

text \<open>
  Modelled from the spec: the macro \<open>Unimplemented()\<close> is defined outside this file. The
  specification calls it a trap that signals the \<open>UnimplementedPath\<close> condition, after
  which the operation produces no result; so the call ends the function with that error.
\<close>

definition Unimplemented :: "error + unit" where
  "Unimplemented = Inl UnimplementedPath"

subsection \<open>\<open>VMRegImpl::set_regName\<close>\<close>

text \<open>
  The first loop, \<open>for ( ; i < max_gpr ; ) { regName[i++] = reg->name(); reg = reg->successor(); }\<close>.
  The loops are defined in the option monad, so that returning is a theorem and not a
  consequence of the definition.
\<close>

partial_function (option) gpr_loop ::
  "('r, 'f) arch \<Rightarrow> 'r \<Rightarrow> ('r, 'f) state \<Rightarrow> ('r, 'f) state option" where
  "gpr_loop A reg s =
     (if cursor s < max_gpr A
      then gpr_loop A (reg_successor A reg)
             (s\<lparr>cursor := cursor s + 1,
                regName := (regName s)(cursor s \<mapsto> reg_name A reg),
                named := (named s)(cursor s \<mapsto> GPR reg)\<rparr>)
      else Some s)"

text \<open>The second loop,
  \<open>for ( ; i < max_fpr ; ) { regName[i++] = freg->name(); freg = freg->successor(); }\<close>.\<close>

partial_function (option) fpr_loop ::
  "('r, 'f) arch \<Rightarrow> 'f \<Rightarrow> ('r, 'f) state \<Rightarrow> ('r, 'f) state option" where
  "fpr_loop A freg s =
     (if cursor s < max_fpr A
      then fpr_loop A (freg_successor A freg)
             (s\<lparr>cursor := cursor s + 1,
                regName := (regName s)(cursor s \<mapsto> freg_name A freg),
                named := (named s)(cursor s \<mapsto> FPR freg)\<rparr>)
      else Some s)"

text \<open>
  The third loop, \<open>for ( ; i < number_of_registers; i++) { Unimplemented(); }\<close>. Its
  result pairs the way the function ended with the state it ended in: an error leaves the
  state as it was when \<open>Unimplemented()\<close> was called.
\<close>

partial_function (option) trap_loop ::
  "('r, 'f) arch \<Rightarrow> ('r, 'f) state \<Rightarrow> ((error + unit) \<times> ('r, 'f) state) option" where
  "trap_loop A s =
     (if cursor s < number_of_registers A
      then (case Unimplemented of
              Inl e \<Rightarrow> Some (Inl e, s)
            | Inr u \<Rightarrow> trap_loop A (s\<lparr>cursor := cursor s + 1\<rparr>))
      else Some (Inr (), s))"

text \<open>The defining equations of the three loops are also the equations to run them
  with.\<close>

declare gpr_loop.simps [code]
declare fpr_loop.simps [code]
declare trap_loop.simps [code]

text \<open>
  The whole function. \<open>tbl\<close> is the content of \<open>regName\<close> when the function is
  entered; \<open>i\<close> starts at \<open>0\<close>, \<open>reg\<close> at \<open>::as_Register(0)\<close> and \<open>freg\<close> at
  \<open>::as_FloatRegister(0)\<close>.
\<close>

definition set_regName ::
  "('r, 'f) arch \<Rightarrow> (int \<rightharpoonup> string) \<Rightarrow> ((error + unit) \<times> ('r, 'f) state) option" where
  "set_regName A tbl =
     do {
       s1 \<leftarrow> gpr_loop A (as_Register A 0) \<lparr>cursor = 0, regName = tbl, named = Map.empty\<rparr>;
       s2 \<leftarrow> fpr_loop A (as_FloatRegister A 0) s1;
       trap_loop A s2
     }"

subsection \<open>\<open>VMRegImpl::as_Register\<close>\<close>

text \<open>
  \<open>Register VMRegImpl::as_Register() { Unimplemented(); }\<close>. The function is a member
  of \<open>VMRegImpl\<close>: its only input is the virtual register it is called on, given here
  by its index, which the body never reads. The body has no \<open>return\<close>.
\<close>

definition VMRegImpl_as_Register :: "int \<Rightarrow> error + 'r" where
  "VMRegImpl_as_Register this =
     (case Unimplemented of
        Inl e \<Rightarrow> Inl e
      | Inr u \<Rightarrow> Inl NoReturnValue)"

subsection \<open>The two fill loops, and the slots left to the third\<close>

text \<open>
  Lines 31 to 41 of \<open>set_regName\<close>: the state in which the third loop is entered.
\<close>

definition fill_loops :: "('r, 'f) arch \<Rightarrow> (int \<rightharpoonup> string) \<Rightarrow> ('r, 'f) state option" where
  "fill_loops A tbl =
     do {
       s1 \<leftarrow> gpr_loop A (as_Register A 0) \<lparr>cursor = 0, regName = tbl, named = Map.empty\<rparr>;
       fpr_loop A (as_FloatRegister A 0) s1
     }"


subsection \<open>Registers as the specification describes them\<close>

text \<open>
  Modelled from the spec: the register handles, \<open>::as_Register(int)\<close>,
  \<open>::as_FloatRegister(int)\<close> and \<open>successor()\<close> are declared outside this file. The
  specification describes a physical register of either class as an identifier
  \<open>0..N-1\<close> whose successor is the next-numbered register. So a handle is the number of
  the register, \<open>::as_Register(e)\<close> is register \<open>e\<close>, and \<open>successor()\<close> adds one. The
  three constants and the two \<open>name()\<close> functions stay parameters.
\<close>

definition numbered_arch ::
  "int \<Rightarrow> int \<Rightarrow> int \<Rightarrow> (int \<Rightarrow> string) \<Rightarrow> (int \<Rightarrow> string) \<Rightarrow> (int, int) arch" where
  "numbered_arch mg mf n rname fname =
     \<lparr>max_gpr = mg, max_fpr = mf, number_of_registers = n,
      as_Register = (\<lambda>e. e), reg_name = rname, reg_successor = (\<lambda>r. r + 1),
      as_FloatRegister = (\<lambda>e. e), freg_name = fname, freg_successor = (\<lambda>f. f + 1)\<rparr>"

subsection \<open>A small machine to run the functions on\<close>

text \<open>
  Two integer registers \<open>r0\<close>, \<open>r1\<close> and two floating-point registers \<open>f0\<close>,
  \<open>f1\<close>. A handle is its encoding, \<open>successor()\<close> adds one, and \<open>name()\<close> looks
  the encoding up, giving \<open>noreg\<close> outside the register file. The constants are
  \<open>max_gpr = 2\<close>, \<open>max_fpr = 2 + 2 = 4\<close> and \<open>number_of_registers = 6\<close>, which leaves
  two slots that belong to no register.
\<close>

definition toy_reg_name :: "int \<Rightarrow> string" where
  "toy_reg_name r = (if r = 0 then ''r0'' else if r = 1 then ''r1'' else ''noreg'')"

definition toy_freg_name :: "int \<Rightarrow> string" where
  "toy_freg_name f = (if f = 0 then ''f0'' else if f = 1 then ''f1'' else ''noreg'')"

definition toy_arch :: "(int, int) arch" where
  "toy_arch =
     \<lparr>max_gpr = 2, max_fpr = 4, number_of_registers = 6,
      as_Register = (\<lambda>e. e), reg_name = toy_reg_name, reg_successor = (\<lambda>r. r + 1),
      as_FloatRegister = (\<lambda>e. e), freg_name = toy_freg_name, freg_successor = (\<lambda>f. f + 1)\<rparr>"

text \<open>The state in which \<open>set_regName\<close> stops on that machine, started on an array that
  holds no name.\<close>

definition toy_final :: "(int, int) state" where
  "toy_final =
     \<lparr>cursor = 4,
      regName = [0 \<mapsto> ''r0'', 1 \<mapsto> ''r1'', 2 \<mapsto> ''f0'', 3 \<mapsto> ''f1''],
      named = [0 \<mapsto> GPR 0, 1 \<mapsto> GPR 1, 2 \<mapsto> FPR 0, 3 \<mapsto> FPR 1]\<rparr>"

text \<open>The same machine with \<open>number_of_registers = 4\<close>: no slot is left for the third
  loop.\<close>

definition toy_arch_full :: "(int, int) arch" where
  "toy_arch_full = toy_arch\<lparr>number_of_registers := 4\<rparr>"

section \<open>What the loops compute\<close>

lemma funpow_shift:
  fixes k :: int
  assumes "0 < k"
  shows "(f ^^ nat (k - 1)) (f x) = (f ^^ nat k) x"
proof -
  from assms have "nat k = Suc (nat (k - 1))" by simp
  then show ?thesis by (simp only: funpow_Suc_right o_apply)
qed

text \<open>The first loop returns. It stops with the cursor at \<open>max_gpr\<close> (or where it
  was, if that is beyond), having stored in each slot from the cursor up to \<open>max_gpr\<close>
  the name of the register that many successor steps after \<open>reg\<close>.\<close>

lemma gpr_loop_closed:
  "gpr_loop A reg s =
     Some \<lparr>cursor = max (cursor s) (max_gpr A),
           regName = (\<lambda>j. if cursor s \<le> j \<and> j < max_gpr A
                           then Some (reg_name A ((reg_successor A ^^ nat (j - cursor s)) reg))
                           else regName s j),
           named = (\<lambda>j. if cursor s \<le> j \<and> j < max_gpr A
                         then Some (GPR ((reg_successor A ^^ nat (j - cursor s)) reg))
                         else named s j)\<rparr>"
proof (induction "nat (max_gpr A - cursor s)" arbitrary: reg s)
  case 0
  then have stop: "\<not> cursor s < max_gpr A" by simp
  then have "gpr_loop A reg s = Some s" by (subst gpr_loop.simps) simp
  moreover have out: "(cursor s \<le> j \<and> j < max_gpr A) = False" for j using stop by arith
  moreover note stop
  ultimately show ?case by (simp add: max_def out)
next
  case (Suc n)
  then have more: "cursor s < max_gpr A" by simp
  let ?s = "s\<lparr>cursor := cursor s + 1,
                regName := (regName s)(cursor s \<mapsto> reg_name A reg),
                named := (named s)(cursor s \<mapsto> GPR reg)\<rparr>"
  have n: "n = nat (max_gpr A - cursor ?s)" using Suc.hyps(2) by simp
  have step: "gpr_loop A reg s = gpr_loop A (reg_successor A reg) ?s"
    using more by (subst gpr_loop.simps) simp
  have shift: "(reg_successor A ^^ nat (j - (cursor s + 1))) (reg_successor A reg)
                 = (reg_successor A ^^ nat (j - cursor s)) reg" if "cursor s < j" for j
    using funpow_shift [of "j - cursor s" "reg_successor A" reg] that
    by (simp add: algebra_simps)
  show ?case
    unfolding step Suc.hyps(1) [OF n]
    using more by (auto simp: max_def fun_eq_iff shift)
qed

text \<open>The second loop, likewise, with \<open>max_fpr\<close> as its bound.\<close>

lemma fpr_loop_closed:
  "fpr_loop A freg s =
     Some \<lparr>cursor = max (cursor s) (max_fpr A),
           regName = (\<lambda>j. if cursor s \<le> j \<and> j < max_fpr A
                           then Some (freg_name A ((freg_successor A ^^ nat (j - cursor s)) freg))
                           else regName s j),
           named = (\<lambda>j. if cursor s \<le> j \<and> j < max_fpr A
                         then Some (FPR ((freg_successor A ^^ nat (j - cursor s)) freg))
                         else named s j)\<rparr>"
proof (induction "nat (max_fpr A - cursor s)" arbitrary: freg s)
  case 0
  then have stop: "\<not> cursor s < max_fpr A" by simp
  then have "fpr_loop A freg s = Some s" by (subst fpr_loop.simps) simp
  moreover have out: "(cursor s \<le> j \<and> j < max_fpr A) = False" for j using stop by arith
  moreover note stop
  ultimately show ?case by (simp add: max_def out)
next
  case (Suc n)
  then have more: "cursor s < max_fpr A" by simp
  let ?s = "s\<lparr>cursor := cursor s + 1,
                regName := (regName s)(cursor s \<mapsto> freg_name A freg),
                named := (named s)(cursor s \<mapsto> FPR freg)\<rparr>"
  have n: "n = nat (max_fpr A - cursor ?s)" using Suc.hyps(2) by simp
  have step: "fpr_loop A freg s = fpr_loop A (freg_successor A freg) ?s"
    using more by (subst fpr_loop.simps) simp
  have shift: "(freg_successor A ^^ nat (j - (cursor s + 1))) (freg_successor A freg)
                 = (freg_successor A ^^ nat (j - cursor s)) freg" if "cursor s < j" for j
    using funpow_shift [of "j - cursor s" "freg_successor A" freg] that
    by (simp add: algebra_simps)
  show ?case
    unfolding step Suc.hyps(1) [OF n]
    using more by (auto simp: max_def fun_eq_iff shift)
qed

text \<open>The third loop returns at once: with an error where the cursor stands if a slot is
  left, normally otherwise. It never changes the state.\<close>

lemma trap_loop_closed:
  "trap_loop A s =
     Some (if cursor s < number_of_registers A then Inl UnimplementedPath else Inr (), s)"
  by (subst trap_loop.simps) (simp add: Unimplemented_def)

text \<open>The whole function, from any content \<open>tbl\<close> of the array.\<close>

lemma set_regName_closed:
  "set_regName A tbl =
     Some (if max 0 (max (max_gpr A) (max_fpr A)) < number_of_registers A
           then Inl UnimplementedPath else Inr (),
           \<lparr>cursor = max 0 (max (max_gpr A) (max_fpr A)),
            regName = (\<lambda>j.
              if 0 \<le> j \<and> j < max_gpr A
              then Some (reg_name A ((reg_successor A ^^ nat j) (as_Register A 0)))
              else if max 0 (max_gpr A) \<le> j \<and> j < max_fpr A
              then Some (freg_name A
                     ((freg_successor A ^^ nat (j - max 0 (max_gpr A))) (as_FloatRegister A 0)))
              else tbl j),
            named = (\<lambda>j.
              if 0 \<le> j \<and> j < max_gpr A
              then Some (GPR ((reg_successor A ^^ nat j) (as_Register A 0)))
              else if max 0 (max_gpr A) \<le> j \<and> j < max_fpr A
              then Some (FPR
                     ((freg_successor A ^^ nat (j - max 0 (max_gpr A))) (as_FloatRegister A 0)))
              else None)\<rparr>)"
  unfolding set_regName_def gpr_loop_closed
  by (auto simp: fpr_loop_closed trap_loop_closed fun_eq_iff max_def)

lemma toy_run:
  "set_regName toy_arch Map.empty = Some (Inl UnimplementedPath, toy_final)"
  unfolding set_regName_closed
  by (auto simp: toy_arch_def toy_final_def toy_reg_name_def toy_freg_name_def fun_eq_iff)

lemma toy_run_full:
  "set_regName toy_arch_full Map.empty = Some (Inr (), toy_final)"
  unfolding set_regName_closed
  by (auto simp: toy_arch_full_def toy_arch_def toy_final_def toy_reg_name_def
      toy_freg_name_def fun_eq_iff)

lemma next_numbered_funpow: "((\<lambda>r::int. r + 1) ^^ k) x = x + int k"
  by (induction k) simp_all


lemma set_regName_fill_loops:
  "set_regName A tbl = (case fill_loops A tbl of None \<Rightarrow> None | Some s2 \<Rightarrow> trap_loop A s2)"
  by (simp add: set_regName_def fill_loops_def gpr_loop_closed fpr_loop_closed)


lemma toy_numbered:
  "toy_arch = numbered_arch 2 (2 + 2) 6 toy_reg_name toy_freg_name"
  by (simp add: toy_arch_def numbered_arch_def)

lemma numbered_named:
  assumes "0 \<le> mg" and "0 \<le> nF"
  shows "set_regName (numbered_arch mg (mg + nF) n rname fname) tbl =
     Some (if mg + nF < n then Inl UnimplementedPath else Inr (),
           \<lparr>cursor = mg + nF,
            regName = (\<lambda>j. if 0 \<le> j \<and> j < mg then Some (rname j)
                            else if mg \<le> j \<and> j < mg + nF then Some (fname (j - mg))
                            else tbl j),
            named = (\<lambda>j. if 0 \<le> j \<and> j < mg then Some (GPR j)
                          else if mg \<le> j \<and> j < mg + nF then Some (FPR (j - mg))
                          else None)\<rparr>)"
  using assms
  by (simp add: set_regName_closed numbered_arch_def next_numbered_funpow max_def fun_eq_iff)

section \<open>The claims\<close>

text \<open>
  The specification counts registers: \<open>MaxGPR\<close> integer registers take the first
  \<open>MaxGPR\<close> indices and \<open>MaxFPR\<close> floating-point registers the next \<open>MaxFPR\<close>. The
  code bounds the index: its first loop runs to \<open>max_gpr\<close> and its second to \<open>max_fpr\<close>.
  So \<open>MaxGPR\<close> is \<open>max_gpr\<close>, \<open>MaxGPR + MaxFPR\<close> is \<open>max_fpr\<close>, and
  \<open>MaxVirtualRegisters\<close> is \<open>number_of_registers\<close>. Below, \<open>nF\<close> is \<open>MaxFPR\<close>, the
  number of floating-point registers, tied to the code by the hypothesis
  \<open>max_fpr A = max_gpr A + nF\<close>; neither count is negative. "After \<open>set_regName\<close>" means
  in the state where the function stops, whether it returns or ends in
  \<open>Unimplemented()\<close>.
\<close>

subsection \<open>C3: the integer slots\<close>

text \<open>
  C3. After \<open>set_regName\<close>, for every index \<open>i\<close> in \<open>[0, max_gpr)\<close>, \<open>regName[i]\<close> is
  the name of the integer register reached by \<open>i\<close> successor steps from
  \<open>::as_Register(0)\<close>.
\<close>

theorem set_regName_integer_slots:
  "\<exists>res s. set_regName A tbl = Some (res, s) \<and>
     (\<forall>i. 0 \<le> i \<and> i < max_gpr A \<longrightarrow>
        regName s i = Some (reg_name A ((reg_successor A ^^ nat i) (as_Register A 0))))"
  by (simp add: set_regName_closed)

text \<open>On the small machine, slot 1 holds the name of the register one step after the
  first.\<close>

theorem set_regName_integer_slots_witness:
  "0 \<le> (1::int) \<and> 1 < max_gpr toy_arch \<and>
   regName toy_final 1
     = Some (reg_name toy_arch ((reg_successor toy_arch ^^ nat 1) (as_Register toy_arch 0))) \<and>
   regName toy_final 1 = Some ''r1''"
proof -
  from set_regName_integer_slots [of toy_arch Map.empty]
  have "\<forall>i. 0 \<le> i \<and> i < max_gpr toy_arch \<longrightarrow>
          regName toy_final i
            = Some (reg_name toy_arch ((reg_successor toy_arch ^^ nat i) (as_Register toy_arch 0)))"
    by (simp add: toy_run)
  then have "regName toy_final 1
      = Some (reg_name toy_arch ((reg_successor toy_arch ^^ nat 1) (as_Register toy_arch 0)))"
    by (simp add: toy_arch_def)
  then show ?thesis
    by (simp add: toy_arch_def toy_final_def)
qed

subsection \<open>C1: the floating-point slots\<close>

text \<open>
  C1. After \<open>set_regName\<close>, for every index \<open>i\<close> in \<open>[MaxGPR, MaxGPR + MaxFPR)\<close>,
  \<open>regName[i]\<close> is the name of the floating-point register reached by \<open>i - MaxGPR\<close>
  successor steps from \<open>::as_FloatRegister(0)\<close>. The float-fill loop, entered in any
  state with the cursor at \<open>MaxGPR\<close>, runs until the cursor reaches
  \<open>MaxGPR + MaxFPR\<close>, and that is where the cursor stands after \<open>set_regName\<close>.
\<close>

theorem set_regName_float_slots:
  assumes "0 \<le> max_gpr A" and "0 \<le> nF" and "max_fpr A = max_gpr A + nF"
  shows "\<exists>res s. set_regName A tbl = Some (res, s) \<and>
     (\<forall>i. max_gpr A \<le> i \<and> i < max_gpr A + nF \<longrightarrow>
        regName s i = Some (freg_name A
          ((freg_successor A ^^ nat (i - max_gpr A)) (as_FloatRegister A 0)))) \<and>
     cursor s = max_gpr A + nF \<and>
     (\<exists>s2. fpr_loop A freg (s0\<lparr>cursor := max_gpr A\<rparr>) = Some s2 \<and>
        cursor s2 = max_gpr A + nF)"
  using assms by (simp add: set_regName_closed fpr_loop_closed max_def)

text \<open>On the small machine, with its two floating-point registers, slot 2 holds the name
  of the first and slot 3 that of its successor.\<close>

theorem set_regName_float_slots_witness:
  "0 \<le> max_gpr toy_arch \<and> (0::int) \<le> 2 \<and> max_fpr toy_arch = max_gpr toy_arch + 2 \<and>
   max_gpr toy_arch \<le> 3 \<and> 3 < max_gpr toy_arch + 2 \<and>
   regName toy_final 3
     = Some (freg_name toy_arch
         ((freg_successor toy_arch ^^ nat (3 - max_gpr toy_arch)) (as_FloatRegister toy_arch 0))) \<and>
   regName toy_final 2 = Some ''f0'' \<and> regName toy_final 3 = Some ''f1'' \<and>
   cursor toy_final = max_gpr toy_arch + 2"
proof -
  have h1: "0 \<le> max_gpr toy_arch" and h2: "(0::int) \<le> 2"
    and h3: "max_fpr toy_arch = max_gpr toy_arch + 2"
    by (simp_all add: toy_arch_def)
  from set_regName_float_slots [OF h1 h2 h3, of Map.empty]
  have filled: "\<forall>i. max_gpr toy_arch \<le> i \<and> i < max_gpr toy_arch + 2 \<longrightarrow>
          regName toy_final i = Some (freg_name toy_arch
            ((freg_successor toy_arch ^^ nat (i - max_gpr toy_arch)) (as_FloatRegister toy_arch 0)))"
    and stop: "cursor toy_final = max_gpr toy_arch + 2"
    by (simp_all add: toy_run)
  have r3: "max_gpr toy_arch \<le> 3 \<and> 3 < max_gpr toy_arch + 2"
    by (simp add: toy_arch_def)
  with filled have "regName toy_final 3 = Some (freg_name toy_arch
      ((freg_successor toy_arch ^^ nat (3 - max_gpr toy_arch)) (as_FloatRegister toy_arch 0)))"
    by blast
  moreover have "regName toy_final 2 = Some ''f0''" "regName toy_final 3 = Some ''f1''"
    by (simp_all add: toy_final_def)
  ultimately show ?thesis
    using h1 h2 h3 r3 stop by blast
qed

subsection \<open>C2: how much of the array is filled\<close>

text \<open>
  C2, as amended. Let \<open>MaxGPR + MaxFPR \<le> MaxVirtualRegisters\<close>, and let the array hold
  no name outside its \<open>MaxVirtualRegisters\<close> slots when \<open>set_regName\<close> is entered. After
  \<open>set_regName\<close> it still holds none outside them. Every entry in \<open>[0, MaxGPR)\<close> is the
  name of the integer register, and every entry in \<open>[MaxGPR, MaxGPR + MaxFPR)\<close> the name of
  the floating-point register, that belongs to the index; each is non-empty when every
  register name is. The slots from \<open>MaxGPR + MaxFPR\<close> up to \<open>MaxVirtualRegisters\<close> are
  left as they were. So the array has exactly \<open>MaxVirtualRegisters\<close> entries, every one
  a non-empty name, when \<open>MaxGPR + MaxFPR = MaxVirtualRegisters\<close>.
\<close>

theorem set_regName_populated:
  assumes "0 \<le> max_gpr A" and "0 \<le> nF" and "max_fpr A = max_gpr A + nF"
    and "max_gpr A + nF \<le> number_of_registers A"
    and "\<forall>r. reg_name A r \<noteq> []"
    and "\<forall>f. freg_name A f \<noteq> []"
    and "dom tbl \<subseteq> {0 ..< number_of_registers A}"
  shows "\<exists>res s. set_regName A tbl = Some (res, s) \<and>
     dom (regName s) \<subseteq> {0 ..< number_of_registers A} \<and>
     (\<forall>i. 0 \<le> i \<and> i < max_gpr A \<longrightarrow>
        regName s i = Some (reg_name A ((reg_successor A ^^ nat i) (as_Register A 0))) \<and>
        reg_name A ((reg_successor A ^^ nat i) (as_Register A 0)) \<noteq> []) \<and>
     (\<forall>i. max_gpr A \<le> i \<and> i < max_gpr A + nF \<longrightarrow>
        regName s i = Some (freg_name A
          ((freg_successor A ^^ nat (i - max_gpr A)) (as_FloatRegister A 0))) \<and>
        freg_name A ((freg_successor A ^^ nat (i - max_gpr A)) (as_FloatRegister A 0)) \<noteq> []) \<and>
     (\<forall>i. max_gpr A + nF \<le> i \<longrightarrow> regName s i = tbl i) \<and>
     (max_gpr A + nF = number_of_registers A \<longrightarrow>
        dom (regName s) = {0 ..< number_of_registers A} \<and>
        (\<forall>i. 0 \<le> i \<and> i < number_of_registers A \<longrightarrow>
           (\<exists>nm. regName s i = Some nm \<and> nm \<noteq> [])))"
proof -
  let ?s = "snd (the (set_regName A tbl))"
  have run: "set_regName A tbl = Some (fst (the (set_regName A tbl)), ?s)"
    by (simp add: set_regName_closed)
  have names: "regName ?s j =
      (if 0 \<le> j \<and> j < max_gpr A
       then Some (reg_name A ((reg_successor A ^^ nat j) (as_Register A 0)))
       else if max_gpr A \<le> j \<and> j < max_gpr A + nF
       then Some (freg_name A
              ((freg_successor A ^^ nat (j - max_gpr A)) (as_FloatRegister A 0)))
       else tbl j)" for j
    using assms(1,3) by (simp add: set_regName_closed max_def)
  have inside: "dom (regName ?s) \<subseteq> {0 ..< number_of_registers A}"
    using assms(1,2,4,7) by (auto simp: names dom_def split: if_splits)
  have gpr: "\<forall>i. 0 \<le> i \<and> i < max_gpr A \<longrightarrow>
        regName ?s i = Some (reg_name A ((reg_successor A ^^ nat i) (as_Register A 0))) \<and>
        reg_name A ((reg_successor A ^^ nat i) (as_Register A 0)) \<noteq> []"
    using assms(5) by (simp add: names)
  have fpr: "\<forall>i. max_gpr A \<le> i \<and> i < max_gpr A + nF \<longrightarrow>
        regName ?s i = Some (freg_name A
          ((freg_successor A ^^ nat (i - max_gpr A)) (as_FloatRegister A 0))) \<and>
        freg_name A ((freg_successor A ^^ nat (i - max_gpr A)) (as_FloatRegister A 0)) \<noteq> []"
    using assms(1,6) by (simp add: names)
  have rest: "\<forall>i. max_gpr A + nF \<le> i \<longrightarrow> regName ?s i = tbl i"
    using assms(1,2) by (simp add: names)
  have full: "dom (regName ?s) = {0 ..< number_of_registers A} \<and>
        (\<forall>i. 0 \<le> i \<and> i < number_of_registers A \<longrightarrow>
           (\<exists>nm. regName ?s i = Some nm \<and> nm \<noteq> []))"
    if eq: "max_gpr A + nF = number_of_registers A"
  proof -
    have "\<exists>nm. regName ?s i = Some nm \<and> nm \<noteq> []"
      if "0 \<le> i \<and> i < number_of_registers A" for i
      using that eq assms(5,6) by (simp add: names)
    then have all: "\<forall>i. 0 \<le> i \<and> i < number_of_registers A \<longrightarrow>
           (\<exists>nm. regName ?s i = Some nm \<and> nm \<noteq> [])"
      by blast
    then have "{0 ..< number_of_registers A} \<subseteq> dom (regName ?s)"
      by (auto simp: dom_def)
    with inside all show ?thesis by blast
  qed
  from run inside gpr fpr rest full show ?thesis by blast
qed

text \<open>On the small machine with \<open>number_of_registers = 4\<close>, entered with an array that
  holds no name: slot 1 and slot 3 hold the names of their registers, slot 4 is as it was,
  and the four slots are the entries of the array.\<close>

theorem set_regName_populated_witness:
  "0 \<le> max_gpr toy_arch_full \<and> (0::int) \<le> 2 \<and>
   max_fpr toy_arch_full = max_gpr toy_arch_full + 2 \<and>
   max_gpr toy_arch_full + 2 \<le> number_of_registers toy_arch_full \<and>
   (\<forall>r. reg_name toy_arch_full r \<noteq> []) \<and> (\<forall>f. freg_name toy_arch_full f \<noteq> []) \<and>
   dom (Map.empty :: int \<rightharpoonup> string) \<subseteq> {0 ..< number_of_registers toy_arch_full} \<and>
   0 \<le> (1::int) \<and> 1 < max_gpr toy_arch_full \<and> regName toy_final 1 = Some ''r1'' \<and>
   max_gpr toy_arch_full \<le> 3 \<and> 3 < max_gpr toy_arch_full + 2 \<and>
   regName toy_final 3 = Some ''f1'' \<and>
   max_gpr toy_arch_full + 2 \<le> 4 \<and> regName toy_final 4 = None \<and>
   max_gpr toy_arch_full + 2 = number_of_registers toy_arch_full \<and>
   dom (regName toy_final) = {0 ..< number_of_registers toy_arch_full}"
proof -
  have h1: "0 \<le> max_gpr toy_arch_full" and h2: "(0::int) \<le> 2"
    and h3: "max_fpr toy_arch_full = max_gpr toy_arch_full + 2"
    and h4: "max_gpr toy_arch_full + 2 \<le> number_of_registers toy_arch_full"
    and h5: "\<forall>r. reg_name toy_arch_full r \<noteq> []"
    and h6: "\<forall>f. freg_name toy_arch_full f \<noteq> []"
    and h7: "dom (Map.empty :: int \<rightharpoonup> string) \<subseteq> {0 ..< number_of_registers toy_arch_full}"
    by (simp_all add: toy_arch_full_def toy_arch_def toy_reg_name_def toy_freg_name_def)
  have r1: "0 \<le> (1::int) \<and> 1 < max_gpr toy_arch_full"
    and r3: "max_gpr toy_arch_full \<le> 3 \<and> 3 < max_gpr toy_arch_full + 2"
    and r4: "max_gpr toy_arch_full + 2 \<le> 4"
    and eq: "max_gpr toy_arch_full + 2 = number_of_registers toy_arch_full"
    by (simp_all add: toy_arch_full_def toy_arch_def)
  from set_regName_populated [OF h1 h2 h3 h4 h5 h6 h7]
  have gpr: "\<forall>i. 0 \<le> i \<and> i < max_gpr toy_arch_full \<longrightarrow>
        regName toy_final i = Some (reg_name toy_arch_full
          ((reg_successor toy_arch_full ^^ nat i) (as_Register toy_arch_full 0)))"
    and fpr: "\<forall>i. max_gpr toy_arch_full \<le> i \<and> i < max_gpr toy_arch_full + 2 \<longrightarrow>
        regName toy_final i = Some (freg_name toy_arch_full
          ((freg_successor toy_arch_full ^^ nat (i - max_gpr toy_arch_full))
             (as_FloatRegister toy_arch_full 0)))"
    and rest: "\<forall>i. max_gpr toy_arch_full + 2 \<le> i \<longrightarrow> regName toy_final i = None"
    and full: "max_gpr toy_arch_full + 2 = number_of_registers toy_arch_full \<longrightarrow>
        dom (regName toy_final) = {0 ..< number_of_registers toy_arch_full}"
    by (simp_all add: toy_run_full)
  from gpr r1 have "regName toy_final 1 = Some (reg_name toy_arch_full
      ((reg_successor toy_arch_full ^^ nat 1) (as_Register toy_arch_full 0)))"
    by blast
  then have s1: "regName toy_final 1 = Some ''r1''"
    by (simp add: toy_arch_full_def toy_arch_def toy_reg_name_def)
  from fpr r3 have "regName toy_final 3 = Some (freg_name toy_arch_full
      ((freg_successor toy_arch_full ^^ nat (3 - max_gpr toy_arch_full))
         (as_FloatRegister toy_arch_full 0)))"
    by blast
  then have s3: "regName toy_final 3 = Some ''f1''"
    by (simp add: toy_arch_full_def toy_arch_def toy_freg_name_def)
  from rest r4 have s4: "regName toy_final 4 = None" by blast
  from full eq have d: "dom (regName toy_final) = {0 ..< number_of_registers toy_arch_full}"
    by blast
  from h1 h2 h3 h4 h5 h6 h7 r1 r3 r4 eq s1 s3 s4 d show ?thesis by blast
qed

text \<open>
  C2 as stated fails. The small machine has \<open>MaxGPR = 2\<close>, \<open>MaxFPR = 2\<close> and
  \<open>MaxVirtualRegisters = 6\<close>, so \<open>MaxGPR + MaxFPR \<le> MaxVirtualRegisters\<close> (and also
  \<open>max_gpr + max_fpr \<le> number_of_registers\<close>, should \<open>MaxFPR\<close> be read as \<open>max_fpr\<close>).
  Index 4 lies in \<open>[0, MaxVirtualRegisters)\<close>, and after \<open>set_regName\<close>, entered with
  an array that holds no name, slot 4 holds none: the function has ended in
  \<open>Unimplemented()\<close> there.
\<close>

theorem set_regName_populated_counterexample:
  "max_fpr toy_arch = max_gpr toy_arch + 2 \<and>
   max_gpr toy_arch + 2 \<le> number_of_registers toy_arch \<and>
   max_gpr toy_arch + max_fpr toy_arch \<le> number_of_registers toy_arch \<and>
   set_regName toy_arch Map.empty = Some (Inl UnimplementedPath, toy_final) \<and>
   0 \<le> (4::int) \<and> 4 < number_of_registers toy_arch \<and>
   regName toy_final 4 = None"
  by (simp add: toy_run) (simp add: toy_arch_def toy_final_def)

subsection \<open>C4: the reverse lookup is a stub\<close>

text \<open>
  C4. Every call of \<open>VMRegImpl::as_Register\<close> signals "not implemented", whatever index
  it is called on: it ends in \<open>UnimplementedPath\<close> and returns no register.
\<close>

theorem as_Register_unimplemented:
  "(VMRegImpl_as_Register i :: error + 'r) = Inl UnimplementedPath \<and>
   (VMRegImpl_as_Register i :: error + 'r) \<noteq> Inr r"
  by (simp add: VMRegImpl_as_Register_def Unimplemented_def)

subsection \<open>C5: no round trip\<close>

text \<open>
  C5, as amended. For every index \<open>i\<close> in \<open>[0, max_gpr)\<close>, \<open>set_regName\<close> stores at
  \<open>regName[i]\<close> the name of the integer register \<open>i\<close> successor steps after the first,
  but \<open>VMRegImpl::as_Register\<close> called on \<open>i\<close> does not return that register: it ends
  in \<open>UnimplementedPath\<close>. The code has no reverse lookup for the table to agree with.
\<close>

theorem as_Register_no_round_trip:
  fixes A :: "('r, 'f) arch"
  shows "\<exists>res s. set_regName A tbl = Some (res, s) \<and>
     (\<forall>i. 0 \<le> i \<and> i < max_gpr A \<longrightarrow>
        named s i = Some (GPR ((reg_successor A ^^ nat i) (as_Register A 0))) \<and>
        regName s i = Some (reg_name A ((reg_successor A ^^ nat i) (as_Register A 0))) \<and>
        (VMRegImpl_as_Register i :: error + 'r) = Inl UnimplementedPath)"
  by (simp add: set_regName_closed VMRegImpl_as_Register_def Unimplemented_def)

text \<open>On the small machine, slot 0 was named after register 0, and the lookup of index 0
  ends in the error.\<close>

theorem as_Register_no_round_trip_witness:
  "0 \<le> (0::int) \<and> 0 < max_gpr toy_arch \<and>
   named toy_final 0 = Some (GPR 0) \<and> regName toy_final 0 = Some ''r0'' \<and>
   (VMRegImpl_as_Register 0 :: error + int) = Inl UnimplementedPath"
proof -
  from as_Register_no_round_trip [of toy_arch Map.empty]
  have "\<forall>i. 0 \<le> i \<and> i < max_gpr toy_arch \<longrightarrow>
          named toy_final i
            = Some (GPR ((reg_successor toy_arch ^^ nat i) (as_Register toy_arch 0))) \<and>
          regName toy_final i
            = Some (reg_name toy_arch ((reg_successor toy_arch ^^ nat i) (as_Register toy_arch 0))) \<and>
          (VMRegImpl_as_Register i :: error + int) = Inl UnimplementedPath"
    by (simp add: toy_run)
  then have "named toy_final 0
        = Some (GPR ((reg_successor toy_arch ^^ nat 0) (as_Register toy_arch 0))) \<and>
      regName toy_final 0
        = Some (reg_name toy_arch ((reg_successor toy_arch ^^ nat 0) (as_Register toy_arch 0))) \<and>
      (VMRegImpl_as_Register 0 :: error + int) = Inl UnimplementedPath"
    by (simp add: toy_arch_def)
  then show ?thesis
    by (simp add: toy_arch_def toy_reg_name_def)
qed

text \<open>
  C5 as stated fails. On the small machine index 0 lies in \<open>[0, max_gpr)\<close> and slot 0 was
  named after register 0, but the lookup of index 0 does not return register 0.
\<close>

theorem as_Register_round_trip_counterexample:
  "0 \<le> (0::int) \<and> 0 < max_gpr toy_arch \<and>
   set_regName toy_arch Map.empty = Some (Inl UnimplementedPath, toy_final) \<and>
   named toy_final 0 = Some (GPR 0) \<and>
   (VMRegImpl_as_Register 0 :: error + int) \<noteq> Inr 0"
  by (simp add: toy_run VMRegImpl_as_Register_def Unimplemented_def)
     (simp add: toy_arch_def toy_final_def)

subsection \<open>C6: indices outside the integer range\<close>

text \<open>
  C6, as amended. \<open>VMRegImpl::as_Register\<close> fails for every index \<open>i \<ge> max_gpr\<close> and for
  every negative index, but by ending in \<open>UnimplementedPath\<close>, not with an \<open>OutOfRange\<close>
  error; and it returns a register for no index at all, so for none outside
  \<open>[0, max_gpr)\<close>.
\<close>

theorem as_Register_outside_range:
  fixes A :: "('r, 'f) arch"
  shows "(i < 0 \<or> max_gpr A \<le> i \<longrightarrow>
      (VMRegImpl_as_Register i :: error + 'r) = Inl UnimplementedPath \<and>
      (VMRegImpl_as_Register i :: error + 'r) \<noteq> Inl OutOfRange) \<and>
   (VMRegImpl_as_Register i :: error + 'r) \<noteq> Inr r"
  by (simp add: VMRegImpl_as_Register_def Unimplemented_def)

text \<open>On the small machine, index 2 is the first one past the integer registers.\<close>

theorem as_Register_outside_range_witness:
  "((2::int) < 0 \<or> max_gpr toy_arch \<le> 2) \<and>
   (VMRegImpl_as_Register 2 :: error + int) = Inl UnimplementedPath \<and>
   (VMRegImpl_as_Register 2 :: error + int) \<noteq> Inl OutOfRange"
proof -
  have outside: "(2::int) < 0 \<or> max_gpr toy_arch \<le> 2" by (simp add: toy_arch_def)
  with as_Register_outside_range [of 2 toy_arch] show ?thesis by blast
qed

text \<open>
  C6 as stated fails. On the small machine index 2 is not below \<open>max_gpr\<close>, and the error
  of the lookup is not \<open>OutOfRange\<close>.
\<close>

theorem as_Register_out_of_range_counterexample:
  "max_gpr toy_arch \<le> 2 \<and>
   (VMRegImpl_as_Register 2 :: error + int) \<noteq> Inl OutOfRange"
  by (simp add: toy_arch_def VMRegImpl_as_Register_def Unimplemented_def)

subsection \<open>C7: the indices on which the function traps\<close>



subsection \<open>C8: the mapping from index to register\<close>

text \<open>
  C8. With the registers numbered as the specification describes them, and at least one
  integer register, the registers that \<open>set_regName\<close> names the slots after form a strict,
  gap-free, order-preserving mapping over \<open>[0, MaxGPR + MaxFPR)\<close>: exactly the indices of
  that range are given a register; index \<open>i\<close> below \<open>MaxGPR\<close> gets integer register
  \<open>i\<close> and index \<open>MaxGPR + k\<close> floating-point register \<open>k\<close>, and \<open>regName\<close> holds the
  name of that register; distinct indices get distinct registers; consecutive indices of
  one class get a register and its successor; and index 0 gets \<open>::as_Register(0)\<close>.
\<close>

theorem set_regName_index_mapping:
  assumes "0 < mg" and "0 \<le> nF"
    and "A = numbered_arch mg (mg + nF) n rname fname"
  shows "\<exists>res s. set_regName A tbl = Some (res, s) \<and>
     dom (named s) = {0 ..< mg + nF} \<and>
     inj_on (named s) {0 ..< mg + nF} \<and>
     named s 0 = Some (GPR (as_Register A 0)) \<and>
     (\<forall>i. 0 \<le> i \<and> i < mg \<longrightarrow>
        named s i = Some (GPR i) \<and> regName s i = Some (reg_name A i)) \<and>
     (\<forall>i. mg \<le> i \<and> i < mg + nF \<longrightarrow>
        named s i = Some (FPR (i - mg)) \<and> regName s i = Some (freg_name A (i - mg))) \<and>
     (\<forall>i. 0 \<le> i \<and> i + 1 < mg \<longrightarrow>
        (\<exists>r. named s i = Some (GPR r) \<and> named s (i + 1) = Some (GPR (reg_successor A r)))) \<and>
     (\<forall>i. mg \<le> i \<and> i + 1 < mg + nF \<longrightarrow>
        (\<exists>f. named s i = Some (FPR f) \<and> named s (i + 1) = Some (FPR (freg_successor A f))))"
proof -
  let ?s = "snd (the (set_regName A tbl))"
  have nonneg: "0 \<le> mg" using assms(1) by simp
  have run: "set_regName A tbl = Some (fst (the (set_regName A tbl)), ?s)"
    by (simp add: set_regName_closed)
  have named: "named ?s j =
      (if 0 \<le> j \<and> j < mg then Some (GPR j)
       else if mg \<le> j \<and> j < mg + nF then Some (FPR (j - mg))
       else None)" for j
    unfolding assms(3) by (simp add: numbered_named [OF nonneg assms(2)])
  have names: "regName ?s j =
      (if 0 \<le> j \<and> j < mg then Some (rname j)
       else if mg \<le> j \<and> j < mg + nF then Some (fname (j - mg))
       else tbl j)" for j
    unfolding assms(3) by (simp add: numbered_named [OF nonneg assms(2)])
  have params: "as_Register A 0 = 0" "reg_name A = rname" "freg_name A = fname"
    "reg_successor A = (\<lambda>r. r + 1)" "freg_successor A = (\<lambda>f. f + 1)"
    by (simp_all add: assms(3) numbered_arch_def)
  have dom: "dom (named ?s) = {0 ..< mg + nF}"
    using nonneg assms(2) by (auto simp: named dom_def split: if_splits)
  have inj: "inj_on (named ?s) {0 ..< mg + nF}"
  proof (rule inj_onI)
    fix i j
    assume "i \<in> {0 ..< mg + nF}" and "j \<in> {0 ..< mg + nF}"
      and "named ?s i = named ?s j"
    then show "i = j"
      by (auto simp: named split: if_splits)
  qed
  have first: "named ?s 0 = Some (GPR (as_Register A 0))"
    using assms(1) by (simp add: named params)
  have gpr: "\<forall>i. 0 \<le> i \<and> i < mg \<longrightarrow>
        named ?s i = Some (GPR i) \<and> regName ?s i = Some (reg_name A i)"
    by (simp add: named names params)
  have fpr: "\<forall>i. mg \<le> i \<and> i < mg + nF \<longrightarrow>
        named ?s i = Some (FPR (i - mg)) \<and> regName ?s i = Some (freg_name A (i - mg))"
    using nonneg by (simp add: named names params)
  have gpr_next: "\<forall>i. 0 \<le> i \<and> i + 1 < mg \<longrightarrow>
        (\<exists>r. named ?s i = Some (GPR r) \<and> named ?s (i + 1) = Some (GPR (reg_successor A r)))"
    by (simp add: named params)
  have fpr_next: "\<forall>i. mg \<le> i \<and> i + 1 < mg + nF \<longrightarrow>
        (\<exists>f. named ?s i = Some (FPR f) \<and> named ?s (i + 1) = Some (FPR (freg_successor A f)))"
    using nonneg by (simp add: named params)
  from run dom inj first gpr fpr gpr_next fpr_next show ?thesis by blast
qed

text \<open>The small machine is numbered so, with two registers of each class: slots 0 and 1
  are named after integer registers 0 and 1, slots 2 and 3 after floating-point registers
  0 and 1, and the four slots get four different registers.\<close>

theorem set_regName_index_mapping_witness:
  "(0::int) < 2 \<and> (0::int) \<le> 2 \<and>
   toy_arch = numbered_arch 2 (2 + 2) 6 toy_reg_name toy_freg_name \<and>
   0 \<le> (1::int) \<and> (1::int) < 2 \<and>
   named toy_final 1 = Some (GPR 1) \<and> regName toy_final 1 = Some (reg_name toy_arch 1) \<and>
   (2::int) \<le> 3 \<and> (3::int) < 2 + 2 \<and>
   named toy_final 3 = Some (FPR (3 - 2)) \<and>
   regName toy_final 3 = Some (freg_name toy_arch (3 - 2)) \<and>
   0 \<le> (0::int) \<and> (0::int) + 1 < 2 \<and>
   (\<exists>r. named toy_final 0 = Some (GPR r) \<and>
        named toy_final (0 + 1) = Some (GPR (reg_successor toy_arch r))) \<and>
   (2::int) \<le> 2 \<and> (2::int) + 1 < 2 + 2 \<and>
   (\<exists>f. named toy_final 2 = Some (FPR f) \<and>
        named toy_final (2 + 1) = Some (FPR (freg_successor toy_arch f))) \<and>
   dom (named toy_final) = {0 ..< 2 + 2} \<and>
   inj_on (named toy_final) {0 ..< 2 + 2}"
proof -
  have h1: "(0::int) < 2" and h2: "(0::int) \<le> 2" by simp_all
  note h3 = toy_numbered
  from set_regName_index_mapping [OF h1 h2 h3, of Map.empty]
  obtain res s where run: "set_regName toy_arch Map.empty = Some (res, s)"
    and dom': "dom (named s) = {0 ..< 2 + 2}"
    and inj': "inj_on (named s) {0 ..< 2 + 2}"
    and gpr': "\<forall>i. 0 \<le> i \<and> i < 2 \<longrightarrow>
        named s i = Some (GPR i) \<and> regName s i = Some (reg_name toy_arch i)"
    and fpr': "\<forall>i. 2 \<le> i \<and> i < 2 + 2 \<longrightarrow>
        named s i = Some (FPR (i - 2)) \<and> regName s i = Some (freg_name toy_arch (i - 2))"
    and gpr_next': "\<forall>i. 0 \<le> i \<and> i + 1 < 2 \<longrightarrow>
        (\<exists>r. named s i = Some (GPR r) \<and>
             named s (i + 1) = Some (GPR (reg_successor toy_arch r)))"
    and fpr_next': "\<forall>i. 2 \<le> i \<and> i + 1 < 2 + 2 \<longrightarrow>
        (\<exists>f. named s i = Some (FPR f) \<and>
             named s (i + 1) = Some (FPR (freg_successor toy_arch f)))"
    by blast
  from run have final: "s = toy_final" by (simp add: toy_run)
  note dom = dom' [unfolded final] and inj = inj' [unfolded final]
    and gpr = gpr' [unfolded final] and fpr = fpr' [unfolded final]
    and gpr_next = gpr_next' [unfolded final] and fpr_next = fpr_next' [unfolded final]
  have r1: "0 \<le> (1::int) \<and> (1::int) < 2" and r3: "(2::int) \<le> 3 \<and> (3::int) < 2 + 2"
    and r0: "0 \<le> (0::int) \<and> (0::int) + 1 < 2" and r2: "(2::int) \<le> 2 \<and> (2::int) + 1 < 2 + 2"
    by simp_all
  from gpr r1 have s1: "named toy_final 1 = Some (GPR 1) \<and>
      regName toy_final 1 = Some (reg_name toy_arch 1)"
    by blast
  from fpr r3 have s3: "named toy_final 3 = Some (FPR (3 - 2)) \<and>
      regName toy_final 3 = Some (freg_name toy_arch (3 - 2))"
    by blast
  from gpr_next r0 have n0: "\<exists>r. named toy_final 0 = Some (GPR r) \<and>
      named toy_final (0 + 1) = Some (GPR (reg_successor toy_arch r))"
    by blast
  from fpr_next r2 have n2: "\<exists>f. named toy_final 2 = Some (FPR f) \<and>
      named toy_final (2 + 1) = Some (FPR (freg_successor toy_arch f))"
    by blast
  from h1 h2 h3 r1 r3 r0 r2 s1 s3 n0 n2 dom inj show ?thesis by blast
qed

subsection \<open>C9: termination\<close>

text \<open>
  C9. \<open>set_regName\<close> terminates for every choice of the three constants. Each of the
  first two loops, from any state, returns with the cursor at its bound (or where it
  was, if that is beyond the bound). The third loop returns from any state, and leaves it
  as it is. The whole function stops with the cursor at the largest of \<open>0\<close>,
  \<open>max_gpr\<close> and \<open>max_fpr\<close>.
\<close>

theorem set_regName_terminates:
  "(\<exists>s'. gpr_loop A reg s = Some s' \<and> cursor s' = max (cursor s) (max_gpr A)) \<and>
   (\<exists>s'. fpr_loop A freg s = Some s' \<and> cursor s' = max (cursor s) (max_fpr A)) \<and>
   (\<exists>res. trap_loop A s = Some (res, s)) \<and>
   (\<exists>res s'. set_regName A tbl = Some (res, s') \<and>
      cursor s' = max 0 (max (max_gpr A) (max_fpr A)))"
  by (simp add: gpr_loop_closed fpr_loop_closed trap_loop_closed set_regName_closed)

subsection \<open>C10: when the trap is reached\<close>

text \<open>
  C10. \<open>set_regName\<close> reaches its \<open>Unimplemented()\<close> trap if and only if
  \<open>number_of_registers\<close> exceeds the larger of \<open>max_gpr\<close> and \<open>max_fpr\<close>. In particular,
  when \<open>max_gpr \<le> max_fpr\<close> and \<open>number_of_registers \<le> max_fpr\<close>, the third loop finds
  its condition false on entry and runs no iteration, \<open>set_regName\<close> returns normally,
  it has written exactly the slots \<open>[0, max_fpr)\<close>, and every slot at or above
  \<open>max_fpr\<close> is as it was. The two bounds are bounds on an index that starts at
  \<open>0\<close>: the larger of them is taken not to be negative.
\<close>

theorem set_regName_trap_reached:
  assumes "0 \<le> max (max_gpr A) (max_fpr A)"
  shows "\<exists>res s. set_regName A tbl = Some (res, s) \<and>
     (res = Inl UnimplementedPath \<longleftrightarrow> max (max_gpr A) (max_fpr A) < number_of_registers A) \<and>
     (max_gpr A \<le> max_fpr A \<and> number_of_registers A \<le> max_fpr A \<longrightarrow>
        res = Inr () \<and>
        \<not> cursor s < number_of_registers A \<and>
        trap_loop A s = Some (Inr (), s) \<and>
        dom (named s) = {0 ..< max_fpr A} \<and>
        (\<forall>i. 0 \<le> i \<and> i < max_fpr A \<longrightarrow> regName s i \<noteq> None) \<and>
        (\<forall>i. max_fpr A \<le> i \<longrightarrow> regName s i = tbl i))"
proof -
  let ?s = "snd (the (set_regName A tbl))"
  let ?res = "fst (the (set_regName A tbl))"
  have run: "set_regName A tbl = Some (?res, ?s)"
    by (simp add: set_regName_closed)
  have trap: "?res = Inl UnimplementedPath \<longleftrightarrow>
      max (max_gpr A) (max_fpr A) < number_of_registers A"
    using assms by (auto simp: set_regName_closed max_def split: if_splits)
  have full: "?res = Inr () \<and> \<not> cursor ?s < number_of_registers A \<and>
      trap_loop A ?s = Some (Inr (), ?s) \<and>
      dom (named ?s) = {0 ..< max_fpr A} \<and>
      (\<forall>i. 0 \<le> i \<and> i < max_fpr A \<longrightarrow> regName ?s i \<noteq> None) \<and>
      (\<forall>i. max_fpr A \<le> i \<longrightarrow> regName ?s i = tbl i)"
    if "max_gpr A \<le> max_fpr A \<and> number_of_registers A \<le> max_fpr A"
  proof -
    from that assms have "?res = Inr ()" and stop: "\<not> cursor ?s < number_of_registers A"
      by (simp_all add: set_regName_closed max_def)
    moreover from stop have "trap_loop A ?s = Some (Inr (), ?s)"
      by (simp add: trap_loop_closed)
    moreover from that assms have "dom (named ?s) = {0 ..< max_fpr A}"
      by (auto simp: set_regName_closed dom_def max_def split: if_splits)
    moreover from that assms have "\<forall>i. 0 \<le> i \<and> i < max_fpr A \<longrightarrow> regName ?s i \<noteq> None"
      by (simp add: set_regName_closed max_def)
    moreover from that assms have "\<forall>i. max_fpr A \<le> i \<longrightarrow> regName ?s i = tbl i"
      by (simp add: set_regName_closed max_def)
    ultimately show ?thesis by blast
  qed
  from run trap full show ?thesis by blast
qed

text \<open>On the small machine with \<open>number_of_registers = 4\<close> the function returns
  normally; slot 3 holds a name and slot 4 is as it was.\<close>

theorem set_regName_trap_reached_witness:
  "0 \<le> max (max_gpr toy_arch_full) (max_fpr toy_arch_full) \<and>
   max_gpr toy_arch_full \<le> max_fpr toy_arch_full \<and>
   number_of_registers toy_arch_full \<le> max_fpr toy_arch_full \<and>
   set_regName toy_arch_full Map.empty = Some (Inr (), toy_final) \<and>
   \<not> cursor toy_final < number_of_registers toy_arch_full \<and>
   0 \<le> (3::int) \<and> 3 < max_fpr toy_arch_full \<and> regName toy_final 3 \<noteq> None \<and>
   max_fpr toy_arch_full \<le> 4 \<and> regName toy_final 4 = None"
proof -
  have nonneg: "0 \<le> max (max_gpr toy_arch_full) (max_fpr toy_arch_full)"
    and full: "max_gpr toy_arch_full \<le> max_fpr toy_arch_full \<and>
      number_of_registers toy_arch_full \<le> max_fpr toy_arch_full"
    and r3: "0 \<le> (3::int) \<and> 3 < max_fpr toy_arch_full"
    and r4: "max_fpr toy_arch_full \<le> 4"
    by (simp_all add: toy_arch_full_def toy_arch_def)
  from set_regName_trap_reached [OF nonneg, of Map.empty] full
  have stop: "\<not> cursor toy_final < number_of_registers toy_arch_full"
    and filled: "\<forall>i. 0 \<le> i \<and> i < max_fpr toy_arch_full \<longrightarrow> regName toy_final i \<noteq> None"
    and rest: "\<forall>i. max_fpr toy_arch_full \<le> i \<longrightarrow> regName toy_final i = None"
    by (simp_all add: toy_run_full)
  from filled r3 have "regName toy_final 3 \<noteq> None" by blast
  moreover from rest r4 have "regName toy_final 4 = None" by blast
  ultimately show ?thesis
    using nonneg full r3 r4 stop toy_run_full by blast
qed

end
